theory Spec2Isabelle
  imports Main
begin

section \<open>The evlc launcher: data model\<close>

text \<open>
  The script \<^verbatim>\<open>evlc.py\<close> keeps two module globals, \<^verbatim>\<open>DEBUG_MODE\<close> and
  \<^verbatim>\<open>vlc_process\<close>, prints to standard output and talks to the operating system through
  three calls: \<^verbatim>\<open>subprocess.Popen\<close>, \<^verbatim>\<open>subprocess.check_output\<close> and \<^verbatim>\<open>os.kill\<close>.
  The model threads a record through every function. It holds the two globals and a trace
  of what the script did: the text of each \<^verbatim>\<open>print\<close> call and the arguments of each
  operating-system call, in the order they were made. What the operating system answers
  (a handle, an output, an exception) is an argument of the modelled function.
  \<^verbatim>\<open>time.sleep\<close> is not modelled, nor is \<^verbatim>\<open>main\<close>, which parses the command line and calls
  one of the three functions below.
\<close>

datatype popen = Popen (pid: int)

text \<open>
  An exception is its class and the text \<^verbatim>\<open>str(e)\<close>. The classes are the ones the script's
  \<^verbatim>\<open>except\<close> clauses name, \<^verbatim>\<open>ValueError\<close> (raised by \<^verbatim>\<open>int\<close>), and one class for every
  other subclass of \<^verbatim>\<open>Exception\<close>. None of the named classes is a subclass of another.
\<close>

datatype exc_class =
  FileNotFoundError | CalledProcessError | ProcessLookupError | PermissionError
  | ValueError | OtherError

datatype py_exception = Exc (exc_cls: exc_class) (exc_str: string)

record world =
  DEBUG_MODE :: bool
  vlc_process :: "popen option"
  stdout :: "string list"
  popen_calls :: "string list list"
  check_output_calls :: "string list list"
  kill_calls :: "int list"

definition py_print :: "string \<Rightarrow> world \<Rightarrow> world" where
  "py_print message w = w\<lparr>stdout := stdout w @ [message]\<rparr>"

definition debug_print :: "string \<Rightarrow> world \<Rightarrow> world" where
  "debug_print message w = (if DEBUG_MODE w then py_print message w else w)"

subsection \<open>Python's \<open>str\<close> on integers and \<open>join\<close>\<close>

definition digit_char :: "nat \<Rightarrow> char" where
  "digit_char d = ''0123456789'' ! d"

fun str_nat :: "nat \<Rightarrow> string" where
  "str_nat n = (if n < 10 then [digit_char n] else str_nat (n div 10) @ [digit_char (n mod 10)])"

declare str_nat.simps [simp del]

definition str_int :: "int \<Rightarrow> string" where
  "str_int i = (if i < 0 then CHR ''-'' # str_nat (nat (- i)) else str_nat (nat i))"

fun join :: "string \<Rightarrow> string list \<Rightarrow> string" where
  "join sep [] = []"
| "join sep [x] = x"
| "join sep (x # y # ys) = x @ sep @ join sep (y # ys)"

section \<open>The launcher: \<open>start_vlc\<close>\<close>

text \<open>
  Lines 23 to 35: the option list chosen by the format, and the command built from it.
  \<open>None\<close> is the \<^verbatim>\<open>else\<close> branch (an unknown format), where no command is built.
\<close>

definition vlc_options_for :: "string \<Rightarrow> string list option" where
  "vlc_options_for media_format =
     (if media_format = ''photo'' then Some [''--play-and-pause'', ''--no-osd'']
      else if media_format = ''video'' then Some [''--loop'', ''--no-osd'']
      else if media_format = ''gif'' then
        Some [''--demux=avformat'', ''--loop'', ''--no-osd'', ''--aspect-ratio=4:3'', ''--crop=16:9'']
      else None)"

definition vlc_command :: "string \<Rightarrow> string \<Rightarrow> string list option" where
  "vlc_command media_path media_format =
     (case vlc_options_for media_format of
        None \<Rightarrow> None
      | Some vlc_options \<Rightarrow> Some ([''cvlc'', media_path] @ vlc_options))"

definition msg_unknown_format :: "string \<Rightarrow> string" where
  "msg_unknown_format media_format =
     ''Error: Unknown format '' @ [CHR 0x27] @ media_format @ [CHR 0x27] @
     ''. Supported formats are 'gif', 'photo', 'video'.''"

definition msg_already_running :: string where
  "msg_already_running =
     ''VLC is already running via this script. Please stop it first before starting a new one.''"

definition msg_generated_command :: "string list \<Rightarrow> string" where
  "msg_generated_command command = ''Generated Command: '' @ join '' '' command"

definition msg_cvlc_not_found :: string where
  "msg_cvlc_not_found =
     ''Error: `cvlc` command not found. Make sure VLC is installed and in your system's PATH.''"

definition msg_start_failed :: "string \<Rightarrow> string" where
  "msg_start_failed e = ''An unexpected error occurred while trying to start VLC: '' @ e"

definition msg_dry_run :: string where
  "msg_dry_run = CHR 0x0A # ''Performing a dry run (command not executed).''"

text \<open>
  \<open>start_vlc\<close>, lines 19 to 58. The first argument is what \<^verbatim>\<open>subprocess.Popen\<close> does with
  a command: it returns a handle or raises. A \<^verbatim>\<open>Popen\<close> object is truthy, so
  \<^verbatim>\<open>if vlc_process\<close> tests the global against \<^verbatim>\<open>None\<close>.
\<close>

definition start_vlc ::
  "(string list \<Rightarrow> py_exception + popen) \<Rightarrow> string \<Rightarrow> string \<Rightarrow> bool \<Rightarrow> world \<Rightarrow> world" where
  "start_vlc subprocess_Popen media_path media_format dry_run w =
     (case vlc_command media_path media_format of
        None \<Rightarrow> py_print (msg_unknown_format media_format) w
      | Some command \<Rightarrow>
          let w1 = debug_print (CHR 0x0A # ''--- VLC Command ---'') w;
              w2 = debug_print (''Format: '' @ media_format) w1;
              w3 = debug_print (''File: '' @ media_path) w2;
              w4 = debug_print (msg_generated_command command) w3;
              w5 = debug_print ''-------------------'' w4
          in if \<not> dry_run then
               (if vlc_process w5 \<noteq> None then py_print msg_already_running w5
                else
                  let w6 = debug_print (CHR 0x0A # ''Executing command...'') w5;
                      w7 = w6\<lparr>popen_calls := popen_calls w6 @ [command]\<rparr>
                  in case subprocess_Popen command of
                       Inr p \<Rightarrow>
                         debug_print (''VLC started with PID: '' @ str_int (pid p))
                           (w7\<lparr>vlc_process := Some p\<rparr>)
                     | Inl (Exc FileNotFoundError e) \<Rightarrow> py_print msg_cvlc_not_found w7
                     | Inl (Exc _ e) \<Rightarrow> py_print (msg_start_failed e) w7)
             else debug_print msg_dry_run w5)"

section \<open>Text received from \<open>pgrep\<close>: \<open>strip\<close>, \<open>split\<close>, \<open>int\<close>\<close>

text \<open>
  The output of \<^verbatim>\<open>pgrep\<close> is modelled after \<^verbatim>\<open>decode('utf-8')\<close>, as a string of ASCII
  characters (a decoding failure is one of the exceptions \<^verbatim>\<open>check_output(...).decode(...)\<close>
  may raise). The functions below follow CPython 3.11 and 3.12 with their default settings on
  such text. \<^verbatim>\<open>str.strip\<close> removes the characters 9 to 13, 28 to 31 and 32. \<^verbatim>\<open>int\<close> skips
  only the characters 9 to 13 and 32 around the literal; it accepts an optional sign and
  decimal digits with single underscores between digits, and refuses more than 4300 digits.
\<close>

definition is_space :: "char \<Rightarrow> bool" where
  "is_space c \<longleftrightarrow>
     c \<in> set [CHR 0x09, CHR 0x0A, CHR 0x0B, CHR 0x0C, CHR 0x0D,
               CHR 0x1C, CHR 0x1D, CHR 0x1E, CHR 0x1F, CHR 0x20]"

definition py_strip :: "string \<Rightarrow> string" where
  "py_strip s = rev (dropWhile is_space (rev (dropWhile is_space s)))"

fun split_nl :: "string \<Rightarrow> string list" where
  "split_nl [] = [] # []"
| "split_nl (c # cs) =
     (if c = CHR 0x0A then [] # split_nl cs
      else (case split_nl cs of [] \<Rightarrow> [c] # [] | l # ls \<Rightarrow> (c # l) # ls))"

definition is_digit :: "char \<Rightarrow> bool" where
  "is_digit c \<longleftrightarrow> c \<in> set ''0123456789''"

definition digit_val :: "char \<Rightarrow> nat" where
  "digit_val c = length (takeWhile (\<lambda>d. d \<noteq> c) ''0123456789'')"

text \<open>
  The run of digits and underscores of a literal: the flag says whether the character before
  was a digit, so an underscore is accepted only between two digits and the empty run is
  refused.
\<close>

fun int_body_ok :: "bool \<Rightarrow> string \<Rightarrow> bool" where
  "int_body_ok prev [] = prev"
| "int_body_ok prev (c # cs) =
     (if is_digit c then int_body_ok True cs
      else if c = CHR ''_'' \<and> prev then int_body_ok False cs
      else False)"

definition hex_char :: "nat \<Rightarrow> char" where
  "hex_char d = ''0123456789abcdef'' ! d"

definition repr_char :: "char \<Rightarrow> char \<Rightarrow> string" where
  "repr_char quote c =
     (if c = quote \<or> c = CHR 0x5C then [CHR 0x5C, c]
      else if c = CHR 0x09 then [CHR 0x5C, CHR ''t'']
      else if c = CHR 0x0A then [CHR 0x5C, CHR ''n'']
      else if c = CHR 0x0D then [CHR 0x5C, CHR ''r'']
      else if (of_char c :: nat) < 32 \<or> (of_char c :: nat) = 127 then
        [CHR 0x5C, CHR ''x'', hex_char (of_char c div 16), hex_char (of_char c mod 16)]
      else [c])"

definition py_repr :: "string \<Rightarrow> string" where
  "py_repr s =
     (let quote = (if CHR 0x27 \<in> set s \<and> CHR 0x22 \<notin> set s then CHR 0x22 else CHR 0x27)
      in [quote] @ concat (map (repr_char quote) s) @ [quote])"

definition msg_invalid_literal :: "string \<Rightarrow> string" where
  "msg_invalid_literal s = ''invalid literal for int() with base 10: '' @ take 200 (py_repr s)"

definition msg_digit_limit :: "nat \<Rightarrow> string" where
  "msg_digit_limit n =
     ''Exceeds the limit (4300 digits) for integer string conversion: value has '' @ str_nat n @
     '' digits; use sys.set_int_max_str_digits() to increase the limit''"

definition is_int_space :: "char \<Rightarrow> bool" where
  "is_int_space c \<longleftrightarrow>
     c \<in> set [CHR 0x09, CHR 0x0A, CHR 0x0B, CHR 0x0C, CHR 0x0D, CHR 0x20]"

definition is_int_body_char :: "char \<Rightarrow> bool" where
  "is_int_body_char c \<longleftrightarrow> is_digit c \<or> c = CHR ''_''"

text \<open>
  \<^verbatim>\<open>int\<close> on a string, in the order the interpreter works: leading white space, the sign,
  the longest run of digits and underscores (refused when it is empty or an underscore is
  misplaced), the limit on the number of digits, and last what follows the run, which may
  only be white space.
\<close>

definition py_int :: "string \<Rightarrow> py_exception + int" where
  "py_int s =
     (let t = dropWhile is_int_space s;
          negative = (t \<noteq> [] \<and> hd t = CHR ''-'');
          body = (if t \<noteq> [] \<and> (hd t = CHR ''-'' \<or> hd t = CHR ''+'') then tl t else t);
          run = takeWhile is_int_body_char body;
          rest = dropWhile is_int_body_char body;
          ds = filter is_digit run
      in if \<not> int_body_ok False run then Inl (Exc ValueError (msg_invalid_literal s))
         else if length ds > 4300 then Inl (Exc ValueError (msg_digit_limit (length ds)))
         else if dropWhile is_int_space rest \<noteq> [] then
           Inl (Exc ValueError (msg_invalid_literal s))
         else
           let magnitude = int (foldl (\<lambda>a c. 10 * a + digit_val c) 0 ds)
           in Inr (if negative then - magnitude else magnitude))"

text \<open>
  The list comprehension \<^verbatim>\<open>[int(pid) for pid in ...]\<close>: the first element \<^verbatim>\<open>int\<close> refuses
  raises, and no list is built.
\<close>

fun int_each :: "string list \<Rightarrow> py_exception + int list" where
  "int_each [] = Inr []"
| "int_each (s # ss) =
     (case py_int s of
        Inl e \<Rightarrow> Inl e
      | Inr i \<Rightarrow> (case int_each ss of Inl e \<Rightarrow> Inl e | Inr is \<Rightarrow> Inr (i # is)))"

section \<open>The process controller: \<open>stop_vlc_process\<close>\<close>

text \<open>The two \<^verbatim>\<open>pgrep\<close> command lines: line 65, and lines 115 and 135.\<close>

definition pgrep_argv :: "string list" where
  "pgrep_argv = [''pgrep'', ''vlc'']"

definition pgrep_count_argv :: "string list" where
  "pgrep_count_argv = [''pgrep'', ''-c'', ''vlc'']"

definition msg_none_found_by_pgrep :: string where
  "msg_none_found_by_pgrep = ''No 'vlc' processes found by 'pgrep'.''"

definition msg_pgrep_not_found :: string where
  "msg_pgrep_not_found =
     ''Error: 'pgrep' command not found. Cannot automatically find and kill processes.''"

definition msg_ensure_pgrep :: string where
  "msg_ensure_pgrep = ''Please ensure 'pgrep' is installed and in your system's PATH.''"

definition msg_pgrep_failed :: "string \<Rightarrow> string" where
  "msg_pgrep_failed e =
     ''An unexpected error occurred while trying to find processes with 'pgrep': '' @ e"

definition msg_none_running :: string where
  "msg_none_running = ''No 'vlc' processes are currently running.''"

definition msg_found_pids :: "int list \<Rightarrow> string" where
  "msg_found_pids found_pids =
     ''Found 'vlc' processes with PIDs: '' @ join '', '' (map str_int found_pids)"

definition msg_sent_sigterm :: "int \<Rightarrow> string" where
  "msg_sent_sigterm p = ''Sent SIGTERM to PID '' @ str_int p @ ''.''"

definition msg_pid_not_found :: "int \<Rightarrow> string" where
  "msg_pid_not_found p = ''PID '' @ str_int p @ '' not found (already terminated or invalid).''"

definition msg_permission_denied :: "int \<Rightarrow> string" where
  "msg_permission_denied p =
     ''Permission denied to kill PID '' @ str_int p @ ''. Check user permissions.''"

definition msg_kill_failed :: "int \<Rightarrow> string \<Rightarrow> string" where
  "msg_kill_failed p e =
     ''An error occurred while trying to kill PID '' @ str_int p @ '': '' @ e"

definition msg_signalled :: "nat \<Rightarrow> string" where
  "msg_signalled killed_count =
     ''Successfully sent termination signal to '' @ str_nat killed_count @ '' 'vlc' process(es).''"

definition msg_none_terminated :: string where
  "msg_none_terminated =
     ''No 'vlc' processes were successfully terminated (might be running under different user or already dead).''"

text \<open>
  The body of the \<^verbatim>\<open>try\<close> block, lines 65 to 68. The argument is what
  \<^verbatim>\<open>subprocess.check_output(['pgrep', 'vlc']).decode('utf-8')\<close> gives: the text, or the
  exception raised. \<^verbatim>\<open>found_pids\<close> stays empty when the stripped text is empty.
\<close>

definition find_pids :: "py_exception + string \<Rightarrow> py_exception + int list" where
  "find_pids pgrep =
     (case pgrep of
        Inl e \<Rightarrow> Inl e
      | Inr out \<Rightarrow>
          let pgrep_output = py_strip out
          in if pgrep_output \<noteq> [] then int_each (split_nl pgrep_output) else Inr [])"

text \<open>
  The loop of lines 92 to 102, with \<^verbatim>\<open>killed_count\<close> as accumulator. The first argument is
  what \<^verbatim>\<open>os.kill(pid, signal.SIGTERM)\<close> does: it returns or raises. Every call is recorded
  in \<open>kill_calls\<close>, delivered or not.
\<close>

fun kill_loop :: "(int \<Rightarrow> py_exception + unit) \<Rightarrow> int list \<Rightarrow> nat \<Rightarrow> world \<Rightarrow> nat \<times> world" where
  "kill_loop os_kill [] killed_count w = (killed_count, w)"
| "kill_loop os_kill (p # found_pids) killed_count w =
     (let w1 = w\<lparr>kill_calls := kill_calls w @ [p]\<rparr>
      in case os_kill p of
           Inr _ \<Rightarrow> kill_loop os_kill found_pids (killed_count + 1) (debug_print (msg_sent_sigterm p) w1)
         | Inl (Exc ProcessLookupError e) \<Rightarrow>
             kill_loop os_kill found_pids killed_count (debug_print (msg_pid_not_found p) w1)
         | Inl (Exc PermissionError e) \<Rightarrow>
             kill_loop os_kill found_pids killed_count (py_print (msg_permission_denied p) w1)
         | Inl (Exc _ e) \<Rightarrow>
             kill_loop os_kill found_pids killed_count (py_print (msg_kill_failed p e) w1))"

text \<open>\<open>stop_vlc_process\<close>, lines 60 to 109.\<close>

definition stop_vlc_process ::
  "py_exception + string \<Rightarrow> (int \<Rightarrow> py_exception + unit) \<Rightarrow> world \<Rightarrow> world" where
  "stop_vlc_process pgrep os_kill w =
     (let w1 = w\<lparr>check_output_calls := check_output_calls w @ [pgrep_argv]\<rparr>
      in case find_pids pgrep of
           Inl (Exc CalledProcessError e) \<Rightarrow>
             (debug_print msg_none_found_by_pgrep w1)\<lparr>vlc_process := None\<rparr>
         | Inl (Exc FileNotFoundError e) \<Rightarrow> py_print msg_ensure_pgrep (py_print msg_pgrep_not_found w1)
         | Inl (Exc _ e) \<Rightarrow> py_print (msg_pgrep_failed e) w1
         | Inr found_pids \<Rightarrow>
             if found_pids = [] then (py_print msg_none_running w1)\<lparr>vlc_process := None\<rparr>
             else
               let w2 = debug_print (msg_found_pids found_pids) w1;
                   w3 = debug_print ''Attempting to terminate...'' w2;
                   (killed_count, w4) = kill_loop os_kill found_pids 0 w3
               in if killed_count > 0 then
                    (py_print (msg_signalled killed_count) w4)\<lparr>vlc_process := None\<rparr>
                  else py_print msg_none_terminated w4)"

section \<open>The process controller: \<open>get_vlc_status\<close>\<close>

definition msg_at_least_one :: string where
  "msg_at_least_one = ''At least one 'vlc' process is currently running (found by pgrep).''"

definition msg_not_found_by_pgrep :: string where
  "msg_not_found_by_pgrep = ''No 'vlc' processes are currently running (not found by pgrep).''"

definition msg_cannot_determine :: string where
  "msg_cannot_determine = ''Error: 'pgrep' command not found. Cannot determine status.''"

definition msg_status_failed :: "string \<Rightarrow> string" where
  "msg_status_failed e = ''An unexpected error occurred while checking status: '' @ e"

definition msg_tracked_active :: "int \<Rightarrow> string" where
  "msg_tracked_active p =
     ''  (Internally tracked VLC process with PID '' @ str_int p @ '' is active.)''"

definition msg_tracked_terminated :: "int \<Rightarrow> string" where
  "msg_tracked_terminated p =
     ''  (Internally tracked VLC process with PID '' @ str_int p @ '' has terminated.)''"

definition msg_none_tracked :: string where
  "msg_none_tracked = ''  (No VLC process is currently tracked by this script instance.)''"

definition msg_status_count :: "int \<Rightarrow> string" where
  "msg_status_count pgrep_count = ''VLC status: '' @ str_int pgrep_count @ '' process(es) running.''"

definition msg_status_none :: string where
  "msg_status_none = ''VLC status: No processes running.''"

definition msg_status_unable :: string where
  "msg_status_unable = ''VLC status: Unable to determine (pgrep error).''"

text \<open>
  \<open>get_vlc_status\<close>, lines 111 to 141, in its three steps. The arguments are what the
  operating system answers: to the first \<^verbatim>\<open>check_output(['pgrep', '-c', 'vlc'])\<close>; to
  \<^verbatim>\<open>poll()\<close> on a handle (\<open>None\<close> while the process runs, its return code afterwards, where
  it stays); and to the second \<^verbatim>\<open>check_output(['pgrep', '-c', 'vlc']).decode('utf-8')\<close>,
  which is called only when \<^verbatim>\<open>DEBUG_MODE\<close> is off.
\<close>

text \<open>Lines 114 to 122: the first query, whose output is not read.\<close>

definition status_query :: "py_exception + string \<Rightarrow> world \<Rightarrow> world" where
  "status_query pgrep1 w =
     (let w1 = w\<lparr>check_output_calls := check_output_calls w @ [pgrep_count_argv]\<rparr>
      in case pgrep1 of
           Inr _ \<Rightarrow> debug_print msg_at_least_one w1
         | Inl (Exc CalledProcessError e) \<Rightarrow> debug_print msg_not_found_by_pgrep w1
         | Inl (Exc FileNotFoundError e) \<Rightarrow> py_print msg_cannot_determine w1
         | Inl (Exc _ e) \<Rightarrow> py_print (msg_status_failed e) w1)"

text \<open>Lines 124 to 130: the tracked handle is polled, and dropped when the process has ended.\<close>

definition status_tracked :: "(popen \<Rightarrow> int option) \<Rightarrow> world \<Rightarrow> world" where
  "status_tracked poll w =
     (case vlc_process w of
        None \<Rightarrow> debug_print msg_none_tracked w
      | Some p \<Rightarrow>
          if poll p = None then debug_print (msg_tracked_active (pid p)) w
          else (debug_print (msg_tracked_terminated (pid p)) w)\<lparr>vlc_process := None\<rparr>)"

text \<open>Lines 132 to 141: the summary line, printed only when \<^verbatim>\<open>DEBUG_MODE\<close> is off.\<close>

definition status_summary :: "py_exception + string \<Rightarrow> world \<Rightarrow> world" where
  "status_summary pgrep2 w =
     (if \<not> DEBUG_MODE w then
        (let w1 = w\<lparr>check_output_calls := check_output_calls w @ [pgrep_count_argv]\<rparr>
         in case pgrep2 of
              Inl e \<Rightarrow> py_print msg_status_unable w1
            | Inr out \<Rightarrow>
                (case py_int (py_strip out) of
                   Inl e \<Rightarrow> py_print msg_status_unable w1
                 | Inr pgrep_count \<Rightarrow>
                     if pgrep_count > 0 then py_print (msg_status_count pgrep_count) w1
                     else py_print msg_status_none w1))
      else w)"

definition get_vlc_status ::
  "py_exception + string \<Rightarrow> (popen \<Rightarrow> int option) \<Rightarrow> py_exception + string \<Rightarrow> world \<Rightarrow> world" where
  "get_vlc_status pgrep1 poll pgrep2 w =
     status_summary pgrep2 (status_tracked poll (status_query pgrep1 w))"

section \<open>Worlds and operating-system answers used in the statements\<close>

text \<open>
  The state of a fresh invocation: \<^verbatim>\<open>vlc_process = None\<close> (line 12) and \<^verbatim>\<open>DEBUG_MODE\<close> as
  \<^verbatim>\<open>main\<close> sets it from \<^verbatim>\<open>--debug\<close> (line 181); nothing printed or called yet.
\<close>

definition initial_world :: "bool \<Rightarrow> world" where
  "initial_world debug =
     \<lparr>DEBUG_MODE = debug, vlc_process = None, stdout = [], popen_calls = [],
      check_output_calls = [], kill_calls = []\<rparr>"

definition tracked_world :: "bool \<Rightarrow> world" where
  "tracked_world debug = (initial_world debug)\<lparr>vlc_process := Some (Popen 4242)\<rparr>"

text \<open>A signal is delivered when \<^verbatim>\<open>os.kill\<close> returns without raising.\<close>

definition kill_delivered :: "(int \<Rightarrow> py_exception + unit) \<Rightarrow> int \<Rightarrow> bool" where
  "kill_delivered os_kill p = (case os_kill p of Inr _ \<Rightarrow> True | Inl _ \<Rightarrow> False)"

text \<open>The five \<^verbatim>\<open>debug_print\<close> calls of lines 37 to 41.\<close>

definition command_debug_lines :: "string \<Rightarrow> string \<Rightarrow> string list \<Rightarrow> string list" where
  "command_debug_lines media_path media_format command =
     [CHR 0x0A # ''--- VLC Command ---'', ''Format: '' @ media_format, ''File: '' @ media_path,
      msg_generated_command command, ''-------------------'']"

definition popen_ok :: "string list \<Rightarrow> py_exception + popen" where
  "popen_ok command = Inr (Popen 4242)"

definition popen_missing :: "string list \<Rightarrow> py_exception + popen" where
  "popen_missing command =
     Inl (Exc FileNotFoundError (''[Errno 2] No such file or directory: 'cvlc'' @ [CHR 0x27]))"

definition kill_ok :: "int \<Rightarrow> py_exception + unit" where
  "kill_ok p = Inr ()"

definition kill_denied :: "int \<Rightarrow> py_exception + unit" where
  "kill_denied p = Inl (Exc PermissionError ''[Errno 1] Operation not permitted'')"


definition poll_running :: "popen \<Rightarrow> int option" where
  "poll_running p = None"

definition poll_exited :: "popen \<Rightarrow> int option" where
  "poll_exited p = Some 0"

definition pgrep_none_matched :: "py_exception + string" where
  "pgrep_none_matched =
     Inl (Exc CalledProcessError ''Command '['pgrep', 'vlc']' returned non-zero exit status 1.'')"


definition pgrep_count_three :: "py_exception + string" where
  "pgrep_count_three = Inr (''3'' @ [CHR 0x0A])"

text \<open>
  With no process matching, \<^verbatim>\<open>pgrep -c\<close> prints the count 0 and exits with status 1, so
  \<^verbatim>\<open>check_output\<close> raises.
\<close>

definition pgrep_count_none :: "py_exception + string" where
  "pgrep_count_none =
     Inl (Exc CalledProcessError
       ''Command '['pgrep', '-c', 'vlc']' returned non-zero exit status 1.'')"


section \<open>Frame lemmas\<close>

lemma py_print_fields [simp]:
  "DEBUG_MODE (py_print m w) = DEBUG_MODE w"
  "vlc_process (py_print m w) = vlc_process w"
  "popen_calls (py_print m w) = popen_calls w"
  "check_output_calls (py_print m w) = check_output_calls w"
  "kill_calls (py_print m w) = kill_calls w"
  "stdout (py_print m w) = stdout w @ [m]"
  by (simp_all add: py_print_def)

lemma debug_print_fields [simp]:
  "DEBUG_MODE (debug_print m w) = DEBUG_MODE w"
  "vlc_process (debug_print m w) = vlc_process w"
  "popen_calls (debug_print m w) = popen_calls w"
  "check_output_calls (debug_print m w) = check_output_calls w"
  "kill_calls (debug_print m w) = kill_calls w"
  "stdout (debug_print m w) = stdout w @ (if DEBUG_MODE w then [m] else [])"
  by (simp_all add: debug_print_def)

lemmas exc_splits = sum.splits py_exception.splits exc_class.splits

subsection \<open>The signalling loop\<close>

lemma kill_loop_kill_calls:
  "kill_calls (snd (kill_loop os_kill found_pids n w)) = kill_calls w @ found_pids"
  by (induction found_pids arbitrary: n w) (simp_all add: Let_def split: exc_splits)

lemma kill_loop_frame:
  "DEBUG_MODE (snd (kill_loop os_kill found_pids n w)) = DEBUG_MODE w \<and>
   vlc_process (snd (kill_loop os_kill found_pids n w)) = vlc_process w \<and>
   popen_calls (snd (kill_loop os_kill found_pids n w)) = popen_calls w \<and>
   check_output_calls (snd (kill_loop os_kill found_pids n w)) = check_output_calls w"
  by (induction found_pids arbitrary: n w) (simp_all add: Let_def split: exc_splits)

lemma kill_loop_count:
  "fst (kill_loop os_kill found_pids n w) =
     n + length (filter (kill_delivered os_kill) found_pids)"
  by (induction found_pids arbitrary: n w)
    (simp_all add: Let_def kill_delivered_def split: exc_splits)


subsection \<open>\<open>stop_vlc_process\<close>\<close>

lemma stop_found:
  "find_pids pgrep = Inr found_pids \<Longrightarrow> found_pids \<noteq> [] \<Longrightarrow>
   stop_vlc_process pgrep os_kill w =
     (let w1 = w\<lparr>check_output_calls := check_output_calls w @ [pgrep_argv]\<rparr>;
          r = kill_loop os_kill found_pids 0
                (debug_print ''Attempting to terminate...''
                  (debug_print (msg_found_pids found_pids) w1))
      in if fst r > 0 then (py_print (msg_signalled (fst r)) (snd r))\<lparr>vlc_process := None\<rparr>
         else py_print msg_none_terminated (snd r))"
  by (simp add: stop_vlc_process_def Let_def split_beta)

lemma stop_none_found:
  "find_pids pgrep = Inr [] \<Longrightarrow>
   stop_vlc_process pgrep os_kill w =
     (py_print msg_none_running
        (w\<lparr>check_output_calls := check_output_calls w @ [pgrep_argv]\<rparr>))
     \<lparr>vlc_process := None\<rparr>"
  by (simp add: stop_vlc_process_def Let_def)

lemma stop_raised:
  "find_pids pgrep = Inl (Exc c e) \<Longrightarrow>
   stop_vlc_process pgrep os_kill w =
     (let w1 = w\<lparr>check_output_calls := check_output_calls w @ [pgrep_argv]\<rparr>
      in if c = CalledProcessError then (debug_print msg_none_found_by_pgrep w1)\<lparr>vlc_process := None\<rparr>
         else if c = FileNotFoundError then py_print msg_ensure_pgrep (py_print msg_pgrep_not_found w1)
         else py_print (msg_pgrep_failed e) w1)"
  by (cases c) (simp_all add: stop_vlc_process_def Let_def)

lemma stop_popen_calls:
  "popen_calls (stop_vlc_process pgrep os_kill w) = popen_calls w"
proof (cases "find_pids pgrep")
  case (Inl x)
  then show ?thesis
    by (cases x) (simp add: stop_raised Let_def)
next
  case (Inr found_pids)
  then show ?thesis
    by (cases "found_pids = []") (simp_all add: stop_none_found stop_found Let_def kill_loop_frame)
qed

lemma stop_vlc_process_tracked:
  "vlc_process (stop_vlc_process pgrep os_kill w) = None \<or>
   vlc_process (stop_vlc_process pgrep os_kill w) = vlc_process w"
proof (cases "find_pids pgrep")
  case (Inl x)
  then show ?thesis
    by (cases x) (simp add: stop_raised Let_def)
next
  case (Inr found_pids)
  then show ?thesis
    by (cases "found_pids = []") (simp_all add: stop_none_found stop_found Let_def kill_loop_frame)
qed

lemma stop_kill_calls:
  "find_pids pgrep = Inr found_pids \<Longrightarrow>
   kill_calls (stop_vlc_process pgrep os_kill w) = kill_calls w @ found_pids"
  by (cases "found_pids = []") (simp_all add: stop_none_found stop_found Let_def kill_loop_kill_calls)

lemma stop_last_line:
  "find_pids pgrep = Inr found_pids \<Longrightarrow> found_pids \<noteq> [] \<Longrightarrow>
   last (stdout (stop_vlc_process pgrep os_kill w)) =
     (let n = length (filter (kill_delivered os_kill) found_pids)
      in if n > 0 then msg_signalled n else msg_none_terminated)"
  by (simp add: stop_found Let_def kill_loop_count)


text \<open>
  The outcomes of \<open>stop_vlc_process\<close> with nothing signalled: empty output of \<^verbatim>\<open>pgrep\<close>,
  \<^verbatim>\<open>pgrep\<close> exiting with a non-zero status, and processes found with no signal delivered.
\<close>

lemma stop_zero_match_paths:
  "(py_strip out = [] \<longrightarrow>
      stdout (stop_vlc_process (Inr out) os_kill w) = stdout w @ [msg_none_running] \<and>
      kill_calls (stop_vlc_process (Inr out) os_kill w) = kill_calls w) \<and>
   stdout (stop_vlc_process (Inl (Exc CalledProcessError e)) os_kill w) =
      stdout w @ (if DEBUG_MODE w then [msg_none_found_by_pgrep] else []) \<and>
   kill_calls (stop_vlc_process (Inl (Exc CalledProcessError e)) os_kill w) = kill_calls w \<and>
   (find_pids pgrep = Inr found_pids \<and> found_pids \<noteq> [] \<and>
    (\<forall>p \<in> set found_pids. \<not> kill_delivered os_kill p) \<longrightarrow>
      last (stdout (stop_vlc_process pgrep os_kill w)) = msg_none_terminated \<and>
      kill_calls (stop_vlc_process pgrep os_kill w) = kill_calls w @ found_pids) \<and>
   msg_none_terminated \<noteq> msg_none_running"
proof -
  have a: "py_strip out = [] \<longrightarrow>
      stdout (stop_vlc_process (Inr out) os_kill w) = stdout w @ [msg_none_running] \<and>
      kill_calls (stop_vlc_process (Inr out) os_kill w) = kill_calls w"
  proof
    assume "py_strip out = []"
    then have "find_pids (Inr out) = Inr []"
      by (simp add: find_pids_def)
    then show "stdout (stop_vlc_process (Inr out) os_kill w) = stdout w @ [msg_none_running] \<and>
      kill_calls (stop_vlc_process (Inr out) os_kill w) = kill_calls w"
      by (simp add: stop_none_found)
  qed
  have "find_pids (Inl (Exc CalledProcessError e)) = Inl (Exc CalledProcessError e)"
    by (simp add: find_pids_def)
  then have b: "stdout (stop_vlc_process (Inl (Exc CalledProcessError e)) os_kill w) =
      stdout w @ (if DEBUG_MODE w then [msg_none_found_by_pgrep] else []) \<and>
    kill_calls (stop_vlc_process (Inl (Exc CalledProcessError e)) os_kill w) = kill_calls w"
    by (simp add: stop_raised Let_def)
  have c: "find_pids pgrep = Inr found_pids \<and> found_pids \<noteq> [] \<and>
    (\<forall>p \<in> set found_pids. \<not> kill_delivered os_kill p) \<longrightarrow>
      last (stdout (stop_vlc_process pgrep os_kill w)) = msg_none_terminated \<and>
      kill_calls (stop_vlc_process pgrep os_kill w) = kill_calls w @ found_pids"
  proof (intro impI, elim conjE)
    assume f: "find_pids pgrep = Inr found_pids" and ne: "found_pids \<noteq> []"
      and none: "\<forall>p \<in> set found_pids. \<not> kill_delivered os_kill p"
    from none have "filter (kill_delivered os_kill) found_pids = []"
      by (simp add: filter_empty_conv)
    with stop_last_line [OF f ne, of os_kill w] stop_kill_calls [OF f, of os_kill w]
    show "last (stdout (stop_vlc_process pgrep os_kill w)) = msg_none_terminated \<and>
      kill_calls (stop_vlc_process pgrep os_kill w) = kill_calls w @ found_pids"
      by simp
  qed
  have d: "msg_none_terminated \<noteq> msg_none_running"
    by (simp add: msg_none_terminated_def msg_none_running_def)
  from a b c d show ?thesis by blast
qed

subsection \<open>\<open>get_vlc_status\<close>\<close>

lemma status_query_fields [simp]:
  "DEBUG_MODE (status_query pgrep1 w) = DEBUG_MODE w"
  "vlc_process (status_query pgrep1 w) = vlc_process w"
  "popen_calls (status_query pgrep1 w) = popen_calls w"
  "kill_calls (status_query pgrep1 w) = kill_calls w"
  "check_output_calls (status_query pgrep1 w) =
     check_output_calls w @ [pgrep_count_argv]"
  by (simp_all add: status_query_def Let_def split: exc_splits)

lemma status_tracked_fields [simp]:
  "DEBUG_MODE (status_tracked poll w) = DEBUG_MODE w"
  "popen_calls (status_tracked poll w) = popen_calls w"
  "kill_calls (status_tracked poll w) = kill_calls w"
  "check_output_calls (status_tracked poll w) = check_output_calls w"
  "vlc_process (status_tracked poll w) =
     (case vlc_process w of
        None \<Rightarrow> None
      | Some p \<Rightarrow> if poll p = None then Some p else None)"
  by (simp_all add: status_tracked_def split: option.splits)

lemma status_summary_fields [simp]:
  "DEBUG_MODE (status_summary pgrep2 w) = DEBUG_MODE w"
  "vlc_process (status_summary pgrep2 w) = vlc_process w"
  "popen_calls (status_summary pgrep2 w) = popen_calls w"
  "kill_calls (status_summary pgrep2 w) = kill_calls w"
  by (simp_all add: status_summary_def Let_def split: sum.splits)

lemma status_summary_count:
  "\<not> DEBUG_MODE w \<Longrightarrow> py_int (py_strip out) = Inr m \<Longrightarrow>
   status_summary (Inr out) w =
     py_print (if m > 0 then msg_status_count m else msg_status_none)
       (w\<lparr>check_output_calls := check_output_calls w @ [pgrep_count_argv]\<rparr>)"
  by (simp add: status_summary_def Let_def)

lemma status_summary_debug:
  "DEBUG_MODE w \<Longrightarrow> status_summary pgrep2 w = w"
  by (simp add: status_summary_def)

lemma status_query_new_lines:
  "\<exists>ls. stdout (status_query pgrep1 w) = stdout w @ ls \<and> (\<forall>l \<in> set ls. hd l \<noteq> CHR ''V'')"
proof (cases pgrep1)
  case (Inl x)
  obtain c e where x: "x = Exc c e" by (cases x)
  show ?thesis
    using Inl x
    by (cases c)
      (simp_all add: status_query_def Let_def msg_not_found_by_pgrep_def msg_cannot_determine_def
        msg_status_failed_def)
next
  case (Inr out)
  then show ?thesis
    by (simp add: status_query_def Let_def msg_at_least_one_def)
qed

lemma status_tracked_new_lines:
  "\<exists>ls. stdout (status_tracked poll w) = stdout w @ ls \<and> (\<forall>l \<in> set ls. hd l \<noteq> CHR ''V'')"
proof (cases "vlc_process w")
  case None
  then show ?thesis
    by (simp add: status_tracked_def msg_none_tracked_def)
next
  case (Some p)
  then show ?thesis
    by (cases "poll p = None")
      (simp_all add: status_tracked_def msg_tracked_active_def msg_tracked_terminated_def)
qed

lemma status_debug_new_lines:
  assumes "DEBUG_MODE w"
    and "l \<in> set (drop (length (stdout w)) (stdout (get_vlc_status pgrep1 poll pgrep2 w)))"
  shows "hd l \<noteq> CHR ''V''"
proof -
  obtain ls1 where q: "stdout (status_query pgrep1 w) = stdout w @ ls1"
    "\<forall>l \<in> set ls1. hd l \<noteq> CHR ''V''"
    using status_query_new_lines by blast
  obtain ls2 where t: "stdout (status_tracked poll (status_query pgrep1 w)) =
      stdout (status_query pgrep1 w) @ ls2" "\<forall>l \<in> set ls2. hd l \<noteq> CHR ''V''"
    using status_tracked_new_lines by blast
  from assms(1) have "get_vlc_status pgrep1 poll pgrep2 w =
      status_tracked poll (status_query pgrep1 w)"
    by (simp add: get_vlc_status_def status_summary_debug)
  with q t assms(2) show ?thesis by auto
qed

subsection \<open>\<open>start_vlc\<close>\<close>

lemma debug_print_eq:
  "debug_print m w = w\<lparr>stdout := stdout w @ (if DEBUG_MODE w then [m] else [])\<rparr>"
  by (simp add: debug_print_def py_print_def)

lemma command_lines_printed:
  "debug_print m5 (debug_print m4 (debug_print m3 (debug_print m2 (debug_print m1 w)))) =
     w\<lparr>stdout := stdout w @ (if DEBUG_MODE w then [m1, m2, m3, m4, m5] else [])\<rparr>"
  by (simp add: debug_print_eq)

lemma start_vlc_unknown:
  "vlc_command media_path media_format = None \<Longrightarrow>
   start_vlc subprocess_Popen media_path media_format dry_run w =
     py_print (msg_unknown_format media_format) w"
  by (simp add: start_vlc_def)

lemma start_vlc_known:
  assumes "vlc_command media_path media_format = Some command"
  shows "start_vlc subprocess_Popen media_path media_format dry_run w =
     (let w5 = w\<lparr>stdout := stdout w @
                 (if DEBUG_MODE w then command_debug_lines media_path media_format command
                  else [])\<rparr>
      in if \<not> dry_run then
           (if vlc_process w \<noteq> None then py_print msg_already_running w5
            else
              let w6 = debug_print (CHR 0x0A # ''Executing command...'') w5;
                  w7 = w6\<lparr>popen_calls := popen_calls w6 @ [command]\<rparr>
              in case subprocess_Popen command of
                   Inr p \<Rightarrow>
                     debug_print (''VLC started with PID: '' @ str_int (pid p))
                       (w7\<lparr>vlc_process := Some p\<rparr>)
                 | Inl (Exc FileNotFoundError e) \<Rightarrow> py_print msg_cvlc_not_found w7
                 | Inl (Exc _ e) \<Rightarrow> py_print (msg_start_failed e) w7)
         else debug_print msg_dry_run w5)"
proof -
  have chain: "debug_print ''-------------------''
      (debug_print (msg_generated_command command)
        (debug_print (''File: '' @ media_path)
          (debug_print (''Format: '' @ media_format)
            (debug_print (CHR 0x0A # ''--- VLC Command ---'') w)))) =
      w\<lparr>stdout := stdout w @
          (if DEBUG_MODE w then command_debug_lines media_path media_format command else [])\<rparr>"
    unfolding command_debug_lines_def by (rule command_lines_printed)
  show ?thesis
    unfolding start_vlc_def Let_def assms option.case chain msg_dry_run_def
    by simp
qed

lemma start_vlc_tracked:
  assumes "vlc_process w = Some p"
  shows "popen_calls (start_vlc subprocess_Popen media_path media_format dry_run w) = popen_calls w"
    and "vlc_process (start_vlc subprocess_Popen media_path media_format dry_run w) = Some p"
proof -
  show "popen_calls (start_vlc subprocess_Popen media_path media_format dry_run w) = popen_calls w"
  proof (cases "vlc_command media_path media_format")
    case None
    then show ?thesis by (simp add: start_vlc_unknown)
  next
    case (Some command)
    with assms show ?thesis by (simp add: start_vlc_known Let_def)
  qed
  show "vlc_process (start_vlc subprocess_Popen media_path media_format dry_run w) = Some p"
  proof (cases "vlc_command media_path media_format")
    case None
    with assms show ?thesis by (simp add: start_vlc_unknown)
  next
    case (Some command)
    with assms show ?thesis by (simp add: start_vlc_known Let_def)
  qed
qed

lemma start_vlc_dry_run:
  "vlc_command media_path media_format = Some command \<Longrightarrow>
   start_vlc subprocess_Popen media_path media_format True w =
     w\<lparr>stdout := stdout w @
         (if DEBUG_MODE w
          then command_debug_lines media_path media_format command @ [msg_dry_run]
          else [])\<rparr>"
  by (simp add: start_vlc_known Let_def debug_print_eq)

lemma start_vlc_raised:
  assumes "vlc_process w = None" and "vlc_command media_path media_format = Some command"
    and "subprocess_Popen command = Inl (Exc c e)"
  shows "start_vlc subprocess_Popen media_path media_format False w =
     w\<lparr>stdout := stdout w @
         (if DEBUG_MODE w
          then command_debug_lines media_path media_format command @
               [CHR 0x0A # ''Executing command...'']
          else []) @
         [if c = FileNotFoundError then msg_cvlc_not_found else msg_start_failed e],
       popen_calls := popen_calls w @ [command]\<rparr>"
  using assms
  by (cases c) (simp_all add: start_vlc_known Let_def debug_print_eq py_print_def)

lemma start_vlc_spawned:
  assumes "vlc_process w = None" and "vlc_command media_path media_format = Some command"
    and "subprocess_Popen command = Inr p"
  shows "start_vlc subprocess_Popen media_path media_format False w =
     w\<lparr>stdout := stdout w @
         (if DEBUG_MODE w
          then command_debug_lines media_path media_format command @
               [CHR 0x0A # ''Executing command...'', ''VLC started with PID: '' @ str_int (pid p)]
          else []),
       popen_calls := popen_calls w @ [command],
       vlc_process := Some p\<rparr>"
  using assms
  by (simp add: start_vlc_known Let_def debug_print_eq)

lemma start_vlc_untracked_calls:
  assumes "vlc_process w = None" and "vlc_command media_path media_format = Some command"
  shows "popen_calls (start_vlc subprocess_Popen media_path media_format False w) =
     popen_calls w @ [command]"
proof (cases "subprocess_Popen command")
  case (Inl x)
  then obtain c e where "subprocess_Popen command = Inl (Exc c e)"
    by (cases x) simp
  with assms show ?thesis
    by (simp add: start_vlc_raised)
next
  case (Inr p)
  with assms show ?thesis
    by (simp add: start_vlc_spawned)
qed

subsection \<open>The decimal numbers \<^verbatim>\<open>pgrep\<close> prints are read back by \<open>py_int\<close>\<close>

lemma digit_char_props:
  assumes "d < 10"
  shows "is_digit (digit_char d)" and "digit_val (digit_char d) = d"
    and "\<not> is_space (digit_char d)" and "\<not> is_int_space (digit_char d)"
    and "digit_char d \<noteq> CHR ''-''" and "digit_char d \<noteq> CHR ''+''"
proof -
  from assms have d: "d = 0 \<or> d = 1 \<or> d = 2 \<or> d = 3 \<or> d = 4 \<or> d = 5 \<or> d = 6 \<or> d = 7 \<or>
      d = 8 \<or> d = 9"
    by arith
  from d show "is_digit (digit_char d)"
    by (elim disjE) (simp_all add: is_digit_def digit_char_def)
  from d show "digit_val (digit_char d) = d"
    by (elim disjE) (simp_all add: digit_val_def digit_char_def)
  from d show "\<not> is_space (digit_char d)"
    by (elim disjE) (simp_all add: is_space_def digit_char_def)
  from d show "\<not> is_int_space (digit_char d)"
    by (elim disjE) (simp_all add: is_int_space_def digit_char_def)
  from d show "digit_char d \<noteq> CHR ''-''"
    by (elim disjE) (simp_all add: digit_char_def)
  from d show "digit_char d \<noteq> CHR ''+''"
    by (elim disjE) (simp_all add: digit_char_def)
qed

lemma str_nat_digits: "set (str_nat n) \<subseteq> digit_char ` {..<10}"
proof (induction n rule: str_nat.induct)
  case (1 n)
  show ?case
  proof (cases "n < 10")
    case True
    then show ?thesis by (subst str_nat.simps) simp
  next
    case False
    with 1 show ?thesis
      by (subst str_nat.simps) simp
  qed
qed

lemma str_nat_not_empty: "str_nat n \<noteq> []"
  by (subst str_nat.simps) simp

lemma str_nat_value: "foldl (\<lambda>a c. 10 * a + digit_val c) 0 (str_nat n) = n"
proof (induction n rule: str_nat.induct)
  case (1 n)
  show ?case
  proof (cases "n < 10")
    case True
    then show ?thesis
      by (subst str_nat.simps) (simp add: digit_char_props)
  next
    case False
    with 1 show ?thesis
      by (subst str_nat.simps) (simp add: digit_char_props)
  qed
qed

lemma int_body_ok_digits:
  "xs \<noteq> [] \<Longrightarrow> \<forall>c \<in> set xs. is_digit c \<Longrightarrow> int_body_ok prev xs"
proof (induction xs arbitrary: prev)
  case Nil
  then show ?case by simp
next
  case (Cons c cs)
  then show ?case by (cases cs) simp_all
qed

lemma py_strip_digits_newline:
  assumes "xs \<noteq> []" and "\<forall>c \<in> set xs. \<not> is_space c"
  shows "py_strip (xs @ [CHR 0x0A]) = xs"
proof -
  from assms have a: "dropWhile is_space (xs @ [CHR 0x0A]) = xs @ [CHR 0x0A]"
    by (cases xs) simp_all
  from assms have b: "dropWhile is_space (rev xs) = rev xs"
    by (cases xs rule: rev_cases) simp_all
  show ?thesis
    by (simp add: py_strip_def a b is_space_def)
qed

lemma py_int_digits:
  assumes "xs \<noteq> []" and "set xs \<subseteq> digit_char ` {..<10}" and "length xs \<le> 4300"
  shows "py_int xs = Inr (int (foldl (\<lambda>a c. 10 * a + digit_val c) 0 xs))"
proof -
  from assms(2) have dig: "\<forall>c \<in> set xs. is_digit c"
    by (auto simp: digit_char_props)
  from assms(1,2) have hd: "\<not> is_int_space (hd xs)" "hd xs \<noteq> CHR ''-''" "hd xs \<noteq> CHR ''+''"
    by (cases xs; auto simp: digit_char_props)+
  from assms(1) hd(1) have lead: "dropWhile is_int_space xs = xs"
    by (cases xs) simp_all
  from dig have run: "takeWhile is_int_body_char xs = xs" "dropWhile is_int_body_char xs = []"
    by (simp_all add: is_int_body_char_def)
  from dig have f: "filter is_digit xs = xs" by simp
  from assms(1) dig have ok: "int_body_ok False xs" by (rule int_body_ok_digits)
  show ?thesis
    using assms(1,3) hd ok
    by (simp add: py_int_def lead run f)
qed

lemma py_int_str_nat:
  assumes "length (str_nat n) \<le> 4300"
  shows "py_int (py_strip (str_nat n @ [CHR 0x0A])) = Inr (int n)"
proof -
  have sp: "\<forall>c \<in> set (str_nat n). \<not> is_space c"
    using str_nat_digits [of n] by (auto simp: digit_char_props)
  from py_strip_digits_newline [OF str_nat_not_empty sp]
    py_int_digits [OF str_nat_not_empty str_nat_digits assms]
  show ?thesis by (simp add: str_nat_value)
qed

subsection \<open>A line of \<^verbatim>\<open>pgrep\<close> output that \<open>py_int\<close> refuses\<close>

text \<open>
  The character 31 is removed by \<^verbatim>\<open>strip\<close> at the ends of the text, not by \<^verbatim>\<open>int\<close> at the end
  of a line: \<^verbatim>\<open>int\<close> raises \<^verbatim>\<open>ValueError\<close>, which lines 78 to 80 report, and no signal is sent.
\<close>

lemma find_pids_unit_separator:
  "find_pids (Inr (''101'' @ [CHR 0x1F, CHR 0x0A] @ ''202'' @ [CHR 0x0A])) =
     Inl (Exc ValueError
       (''invalid literal for int() with base 10: '101'' @ [CHR 0x5C] @ ''x1f'' @ [CHR 0x27]))"
  by (simp add: find_pids_def py_strip_def is_space_def py_int_def is_int_space_def
      is_int_body_char_def is_digit_def digit_val_def msg_invalid_literal_def py_repr_def
      repr_char_def hex_char_def Let_def)

lemma stop_unit_separator:
  "kill_calls (stop_vlc_process (Inr (''101'' @ [CHR 0x1F, CHR 0x0A] @ ''202'' @ [CHR 0x0A]))
     kill_denied (initial_world False)) = [] \<and>
   stdout (stop_vlc_process (Inr (''101'' @ [CHR 0x1F, CHR 0x0A] @ ''202'' @ [CHR 0x0A]))
     kill_denied (initial_world False)) =
     [msg_pgrep_failed
       (''invalid literal for int() with base 10: '101'' @ [CHR 0x5C] @ ''x1f'' @ [CHR 0x27])]"
  unfolding stop_raised [OF find_pids_unit_separator]
  by (simp add: Let_def initial_world_def py_print_def)

subsection \<open>Evaluations used by the witnesses\<close>


lemma py_int_count_three: "py_int (py_strip (''3'' @ [CHR 0x0A])) = Inr 3"
  by (simp add: py_strip_def is_space_def py_int_def is_int_space_def is_int_body_char_def
      is_digit_def digit_val_def)

lemma vlc_command_video:
  "vlc_command media_path ''video'' = Some [''cvlc'', media_path, ''--loop'', ''--no-osd'']"
  by (simp add: vlc_command_def vlc_options_for_def)

lemma vlc_command_gif:
  "vlc_command media_path ''gif'' =
     Some [''cvlc'', media_path, ''--demux=avformat'', ''--loop'', ''--no-osd'',
           ''--aspect-ratio=4:3'', ''--crop=16:9'']"
  by (simp add: vlc_command_def vlc_options_for_def)

lemma vlc_command_photo:
  "vlc_command media_path ''photo'' =
     Some [''cvlc'', media_path, ''--play-and-pause'', ''--no-osd'']"
  by (simp add: vlc_command_def vlc_options_for_def)

lemma already_running_not_debug_line:
  "msg_already_running \<notin>
     set (command_debug_lines media_path media_format command @ [msg_dry_run])"
  by (simp add: msg_already_running_def command_debug_lines_def msg_dry_run_def
      msg_generated_command_def)

section \<open>The claims\<close>

text \<open>
  C1. For each of the three supported formats the command is \<^verbatim>\<open>cvlc\<close>, then the media path,
  then the fixed options of that format in the fixed order; and a \<open>start_vlc\<close> that is not a
  dry run, with no process tracked, hands exactly that list to \<^verbatim>\<open>subprocess.Popen\<close>.
\<close>

theorem start_vlc_command_line:
  assumes "vlc_process w = None"
  shows "vlc_command media_path ''photo'' =
      Some [''cvlc'', media_path, ''--play-and-pause'', ''--no-osd''] \<and>
    vlc_command media_path ''video'' = Some [''cvlc'', media_path, ''--loop'', ''--no-osd''] \<and>
    vlc_command media_path ''gif'' =
      Some [''cvlc'', media_path, ''--demux=avformat'', ''--loop'', ''--no-osd'',
            ''--aspect-ratio=4:3'', ''--crop=16:9''] \<and>
    popen_calls (start_vlc subprocess_Popen media_path ''photo'' False w) =
      popen_calls w @ ([''cvlc'', media_path, ''--play-and-pause'', ''--no-osd''] # []) \<and>
    popen_calls (start_vlc subprocess_Popen media_path ''video'' False w) =
      popen_calls w @ ([''cvlc'', media_path, ''--loop'', ''--no-osd''] # []) \<and>
    popen_calls (start_vlc subprocess_Popen media_path ''gif'' False w) =
      popen_calls w @ ([''cvlc'', media_path, ''--demux=avformat'', ''--loop'', ''--no-osd'',
            ''--aspect-ratio=4:3'', ''--crop=16:9''] # [])"
proof -
  have call: "popen_calls (start_vlc subprocess_Popen media_path media_format False w) =
      popen_calls w @ [command]"
    if "vlc_command media_path media_format = Some command" for media_format command
    using assms that by (rule start_vlc_untracked_calls)
  from call [OF vlc_command_photo] call [OF vlc_command_video] call [OF vlc_command_gif]
    vlc_command_photo [of media_path] vlc_command_video [of media_path]
    vlc_command_gif [of media_path]
  show ?thesis by blast
qed

theorem start_vlc_command_line_witness:
  "vlc_process (initial_world False) = None \<and>
   popen_calls (start_vlc popen_ok ''/tmp/a.gif'' ''gif'' False (initial_world False)) =
     [''cvlc'', ''/tmp/a.gif'', ''--demux=avformat'', ''--loop'', ''--no-osd'',
      ''--aspect-ratio=4:3'', ''--crop=16:9''] # []"
proof -
  have h: "vlc_process (initial_world False) = None"
    by (simp add: initial_world_def)
  have e: "popen_calls (initial_world False) = []"
    by (simp add: initial_world_def)
  from start_vlc_command_line [OF h, of "''/tmp/a.gif''" popen_ok] h e
  show ?thesis by simp
qed

text \<open>
  C2. A dry run changes nothing but the printed text: for every format, path and state the
  result is the state it started from with lines added to \<open>stdout\<close>. No
  \<^verbatim>\<open>subprocess.Popen\<close> call is made, no signal is sent and the tracked process is as
  before.
\<close>

theorem dry_run_no_effect:
  "start_vlc subprocess_Popen media_path media_format True w =
     w\<lparr>stdout := stdout (start_vlc subprocess_Popen media_path media_format True w)\<rparr> \<and>
   popen_calls (start_vlc subprocess_Popen media_path media_format True w) = popen_calls w \<and>
   vlc_process (start_vlc subprocess_Popen media_path media_format True w) = vlc_process w \<and>
   kill_calls (start_vlc subprocess_Popen media_path media_format True w) = kill_calls w"
proof (cases "vlc_command media_path media_format")
  case None
  then show ?thesis by (simp add: start_vlc_unknown py_print_def)
next
  case (Some command)
  then show ?thesis by (simp add: start_vlc_dry_run)
qed

theorem dry_run_no_effect_witness:
  "popen_calls (start_vlc popen_ok ''/tmp/a.gif'' ''gif'' True (initial_world True)) = [] \<and>
   vlc_process (start_vlc popen_ok ''/tmp/a.gif'' ''gif'' True (initial_world True)) = None \<and>
   kill_calls (start_vlc popen_ok ''/tmp/a.gif'' ''gif'' True (initial_world True)) = []"
  using dry_run_no_effect [of popen_ok "''/tmp/a.gif''" "''gif''" "initial_world True"]
  by (simp add: initial_world_def)

text \<open>
  C3. While a process is tracked, a \<open>start_vlc\<close> with a supported format that is not a dry
  run prints the already-running line last, and any \<open>start_vlc\<close> makes no
  \<^verbatim>\<open>subprocess.Popen\<close> call and keeps the same tracked process. \<open>stop_vlc_process\<close> and
  \<open>get_vlc_status\<close> make no such call either, and leave the tracked process as it is or
  clear it. So no operation spawns a player while one is tracked.
\<close>

theorem second_start_rejected:
  assumes "vlc_process w = Some p"
  shows "(vlc_command media_path media_format = Some command \<longrightarrow>
      stdout (start_vlc subprocess_Popen media_path media_format False w) =
        stdout w @
        (if DEBUG_MODE w then command_debug_lines media_path media_format command else []) @
        [msg_already_running]) \<and>
    popen_calls (start_vlc subprocess_Popen media_path media_format dry_run w) = popen_calls w \<and>
    vlc_process (start_vlc subprocess_Popen media_path media_format dry_run w) = Some p \<and>
    popen_calls (stop_vlc_process pgrep os_kill w) = popen_calls w \<and>
    vlc_process (stop_vlc_process pgrep os_kill w) \<in> {Some p, None} \<and>
    popen_calls (get_vlc_status pgrep1 poll pgrep2 w) = popen_calls w \<and>
    vlc_process (get_vlc_status pgrep1 poll pgrep2 w) \<in> {Some p, None}"
proof -
  have out: "vlc_command media_path media_format = Some command \<longrightarrow>
      stdout (start_vlc subprocess_Popen media_path media_format False w) =
        stdout w @
        (if DEBUG_MODE w then command_debug_lines media_path media_format command else []) @
        [msg_already_running]"
    using assms by (simp add: start_vlc_known Let_def)
  have stop: "vlc_process (stop_vlc_process pgrep os_kill w) \<in> {Some p, None}"
    using assms stop_vlc_process_tracked [of pgrep os_kill w] by auto
  have status: "vlc_process (get_vlc_status pgrep1 poll pgrep2 w) \<in> {Some p, None}"
    using assms by (simp add: get_vlc_status_def)
  have status_calls: "popen_calls (get_vlc_status pgrep1 poll pgrep2 w) = popen_calls w"
    by (simp add: get_vlc_status_def)
  from out start_vlc_tracked [OF assms] stop stop_popen_calls status status_calls
  show ?thesis by blast
qed

theorem second_start_rejected_witness:
  "vlc_process (tracked_world False) = Some (Popen 4242) \<and>
   vlc_command ''/tmp/clip.mp4'' ''video'' =
     Some [''cvlc'', ''/tmp/clip.mp4'', ''--loop'', ''--no-osd''] \<and>
   stdout (start_vlc popen_ok ''/tmp/clip.mp4'' ''video'' False (tracked_world False)) =
     [msg_already_running] \<and>
   popen_calls (start_vlc popen_ok ''/tmp/clip.mp4'' ''video'' False (tracked_world False)) = [] \<and>
   vlc_process (start_vlc popen_ok ''/tmp/clip.mp4'' ''video'' False (tracked_world False)) =
     Some (Popen 4242)"
proof -
  have h: "vlc_process (tracked_world False) = Some (Popen 4242)"
    by (simp add: tracked_world_def initial_world_def)
  have f: "\<not> DEBUG_MODE (tracked_world False)" "stdout (tracked_world False) = []"
    "popen_calls (tracked_world False) = []"
    by (simp_all add: tracked_world_def initial_world_def)
  from second_start_rejected [OF h, of "''/tmp/clip.mp4''" "''video''"
      "[''cvlc'', ''/tmp/clip.mp4'', ''--loop'', ''--no-osd'']" popen_ok False]
    h f vlc_command_video [of "''/tmp/clip.mp4''"]
  show ?thesis by simp
qed

text \<open>
  C4. Stop with no process matching is to report that no process is running. The code does
  not: when \<^verbatim>\<open>pgrep\<close> matches nothing it exits with status 1, \<^verbatim>\<open>check_output\<close> raises
  \<^verbatim>\<open>CalledProcessError\<close>, and with \<^verbatim>\<open>DEBUG_MODE\<close> off lines 69 to 73 print nothing at all
  and send no signal. The other path for zero matches, lines 82 to 86, prints the line of
  \<open>msg_none_running\<close>, marked in the source as a primary status to be kept visible.
\<close>

theorem stop_silent_when_pgrep_exits_nonzero:
  "stdout (stop_vlc_process pgrep_none_matched kill_ok (initial_world False)) = [] \<and>
   msg_none_running \<notin>
     set (stdout (stop_vlc_process pgrep_none_matched kill_ok (initial_world False))) \<and>
   kill_calls (stop_vlc_process pgrep_none_matched kill_ok (initial_world False)) = [] \<and>
   stdout (stop_vlc_process (Inr []) kill_ok (initial_world False)) = [msg_none_running]"
proof -
  have "find_pids pgrep_none_matched =
      Inl (Exc CalledProcessError
        ''Command '['pgrep', 'vlc']' returned non-zero exit status 1.'')"
    by (simp add: find_pids_def pgrep_none_matched_def)
  then have silent:
    "stdout (stop_vlc_process pgrep_none_matched kill_ok (initial_world False)) = []"
    "kill_calls (stop_vlc_process pgrep_none_matched kill_ok (initial_world False)) = []"
    by (simp_all add: stop_raised Let_def initial_world_def)
  have "find_pids (Inr []) = Inr []"
    by (simp add: find_pids_def py_strip_def)
  then have "stdout (stop_vlc_process (Inr []) kill_ok (initial_world False)) =
      [msg_none_running]"
    by (simp add: stop_none_found initial_world_def)
  with silent show ?thesis by simp
qed



text \<open>
  C6. When \<^verbatim>\<open>pgrep\<close> is not installed (\<^verbatim>\<open>FileNotFoundError\<close>), \<open>stop_vlc_process\<close> prints
  its two error lines and returns: the only call made is the \<^verbatim>\<open>pgrep\<close> one, no signal is
  sent and the tracked process is as before.
\<close>

theorem stop_pgrep_missing:
  "stop_vlc_process (Inl (Exc FileNotFoundError e)) os_kill w =
     w\<lparr>check_output_calls := check_output_calls w @ [pgrep_argv],
       stdout := stdout w @ [msg_pgrep_not_found, msg_ensure_pgrep]\<rparr> \<and>
   kill_calls (stop_vlc_process (Inl (Exc FileNotFoundError e)) os_kill w) = kill_calls w \<and>
   vlc_process (stop_vlc_process (Inl (Exc FileNotFoundError e)) os_kill w) = vlc_process w"
proof -
  have "find_pids (Inl (Exc FileNotFoundError e)) = Inl (Exc FileNotFoundError e)"
    by (simp add: find_pids_def)
  then show ?thesis
    by (simp add: stop_raised Let_def py_print_def)
qed

theorem stop_pgrep_missing_witness:
  "stdout (stop_vlc_process (Inl (Exc FileNotFoundError [])) kill_ok (tracked_world False)) =
     [msg_pgrep_not_found, msg_ensure_pgrep] \<and>
   kill_calls (stop_vlc_process (Inl (Exc FileNotFoundError [])) kill_ok (tracked_world False)) =
     [] \<and>
   vlc_process (stop_vlc_process (Inl (Exc FileNotFoundError [])) kill_ok (tracked_world False)) =
     Some (Popen 4242)"
  using stop_pgrep_missing [of "[]" kill_ok "tracked_world False"]
  by (simp add: tracked_world_def initial_world_def)

text \<open>
  C7 as stated fails, at two inputs. With \<^verbatim>\<open>--debug\<close> and three processes running,
  \<open>get_vlc_status\<close> prints that at least one is running and that none is tracked, and no
  count. With no process running and \<^verbatim>\<open>DEBUG_MODE\<close> off, \<^verbatim>\<open>pgrep -c\<close> exits with status 1
  and the line printed is \<open>msg_status_unable\<close>, not the no-processes line.
\<close>

theorem status_debug_prints_no_count:
  "stdout (get_vlc_status pgrep_count_three poll_running pgrep_count_three (initial_world True)) =
     [msg_at_least_one, msg_none_tracked] \<and>
   msg_status_count 3 \<notin>
     set (stdout
       (get_vlc_status pgrep_count_three poll_running pgrep_count_three (initial_world True))) \<and>
   stdout (get_vlc_status pgrep_count_none poll_running pgrep_count_none (initial_world False)) =
     [msg_status_unable] \<and>
   msg_status_unable \<noteq> msg_status_none"
proof -
  have out: "stdout
      (get_vlc_status pgrep_count_three poll_running pgrep_count_three (initial_world True)) =
      [msg_at_least_one, msg_none_tracked]"
    by (simp add: get_vlc_status_def status_summary_debug status_tracked_def status_query_def
        pgrep_count_three_def initial_world_def)
  have "msg_status_count 3 \<noteq> msg_at_least_one"
    by (simp add: msg_status_count_def msg_at_least_one_def)
  moreover have "msg_status_count 3 \<noteq> msg_none_tracked"
    by (simp add: msg_status_count_def msg_none_tracked_def)
  moreover have "stdout
      (get_vlc_status pgrep_count_none poll_running pgrep_count_none (initial_world False)) =
      [msg_status_unable]"
    by (simp add: get_vlc_status_def status_summary_def status_tracked_def status_query_def
        pgrep_count_none_def initial_world_def Let_def)
  moreover have "msg_status_unable \<noteq> msg_status_none"
    by (simp add: msg_status_unable_def msg_status_none_def)
  ultimately show ?thesis
    using out by simp
qed

text \<open>
  C7 (as amended). With \<^verbatim>\<open>DEBUG_MODE\<close> off, when the second \<^verbatim>\<open>pgrep -c\<close> call returns and
  its output reads as a positive integer \<open>m\<close>, the last line \<open>get_vlc_status\<close> prints is the
  count \<open>m\<close>. That is the case whenever \<^verbatim>\<open>pgrep -c\<close> prints a positive count \<open>n\<close> in decimal
  (of at most 4300 digits) and a line feed. With \<^verbatim>\<open>DEBUG_MODE\<close> on, for every answer of the
  operating system and every state, \<open>get_vlc_status\<close> prints no summary line (no count, not
  the no-processes line, not the unable line) and does not make the second \<^verbatim>\<open>pgrep\<close> call.
\<close>

theorem status_reports_count:
  "(\<not> DEBUG_MODE w \<and> py_int (py_strip out) = Inr m \<and> 0 < m \<longrightarrow>
      last (stdout (get_vlc_status pgrep1 poll (Inr out) w)) = msg_status_count m \<and>
      check_output_calls (get_vlc_status pgrep1 poll (Inr out) w) =
        check_output_calls w @ [pgrep_count_argv, pgrep_count_argv]) \<and>
   (\<not> DEBUG_MODE w \<and> 0 < n \<and> length (str_nat n) \<le> 4300 \<longrightarrow>
      last (stdout (get_vlc_status pgrep1 poll (Inr (str_nat n @ [CHR 0x0A])) w)) =
        ''VLC status: '' @ str_nat n @ '' process(es) running.'') \<and>
   (DEBUG_MODE w \<longrightarrow>
      msg_status_count k \<notin>
        set (drop (length (stdout w)) (stdout (get_vlc_status pgrep1 poll pgrep2 w))) \<and>
      msg_status_none \<notin>
        set (drop (length (stdout w)) (stdout (get_vlc_status pgrep1 poll pgrep2 w))) \<and>
      msg_status_unable \<notin>
        set (drop (length (stdout w)) (stdout (get_vlc_status pgrep1 poll pgrep2 w))) \<and>
      check_output_calls (get_vlc_status pgrep1 poll pgrep2 w) =
        check_output_calls w @ [pgrep_count_argv])"
proof -
  have count: "last (stdout (get_vlc_status pgrep1 poll (Inr s) w)) = msg_status_count i \<and>
      check_output_calls (get_vlc_status pgrep1 poll (Inr s) w) =
        check_output_calls w @ [pgrep_count_argv, pgrep_count_argv]"
    if "\<not> DEBUG_MODE w" and "py_int (py_strip s) = Inr i" and "0 < i" for s i
  proof -
    have "\<not> DEBUG_MODE (status_tracked poll (status_query pgrep1 w))"
      using that(1) by simp
    from status_summary_count [OF this that(2)] that(3) show ?thesis
      by (simp add: get_vlc_status_def)
  qed
  have a: "\<not> DEBUG_MODE w \<and> py_int (py_strip out) = Inr m \<and> 0 < m \<longrightarrow>
      last (stdout (get_vlc_status pgrep1 poll (Inr out) w)) = msg_status_count m \<and>
      check_output_calls (get_vlc_status pgrep1 poll (Inr out) w) =
        check_output_calls w @ [pgrep_count_argv, pgrep_count_argv]"
    using count by blast
  have b: "\<not> DEBUG_MODE w \<and> 0 < n \<and> length (str_nat n) \<le> 4300 \<longrightarrow>
      last (stdout (get_vlc_status pgrep1 poll (Inr (str_nat n @ [CHR 0x0A])) w)) =
        ''VLC status: '' @ str_nat n @ '' process(es) running.''"
  proof (intro impI, elim conjE)
    assume d: "\<not> DEBUG_MODE w" and pos: "0 < n" and len: "length (str_nat n) \<le> 4300"
    from len have "py_int (py_strip (str_nat n @ [CHR 0x0A])) = Inr (int n)"
      by (rule py_int_str_nat)
    from count [OF d this] pos
    show "last (stdout (get_vlc_status pgrep1 poll (Inr (str_nat n @ [CHR 0x0A])) w)) =
        ''VLC status: '' @ str_nat n @ '' process(es) running.''"
      by (simp add: msg_status_count_def str_int_def)
  qed
  have c: "DEBUG_MODE w \<longrightarrow>
      msg_status_count k \<notin>
        set (drop (length (stdout w)) (stdout (get_vlc_status pgrep1 poll pgrep2 w))) \<and>
      msg_status_none \<notin>
        set (drop (length (stdout w)) (stdout (get_vlc_status pgrep1 poll pgrep2 w))) \<and>
      msg_status_unable \<notin>
        set (drop (length (stdout w)) (stdout (get_vlc_status pgrep1 poll pgrep2 w))) \<and>
      check_output_calls (get_vlc_status pgrep1 poll pgrep2 w) =
        check_output_calls w @ [pgrep_count_argv]"
  proof
    assume d: "DEBUG_MODE w"
    have v: "hd (msg_status_count k) = CHR ''V''" "hd msg_status_none = CHR ''V''"
      "hd msg_status_unable = CHR ''V''"
      by (simp_all add: msg_status_count_def msg_status_none_def msg_status_unable_def)
    have calls: "check_output_calls (get_vlc_status pgrep1 poll pgrep2 w) =
        check_output_calls w @ [pgrep_count_argv]"
      using d by (simp add: get_vlc_status_def status_summary_debug)
    from status_debug_new_lines [OF d, of _ pgrep1 poll pgrep2] v calls
    show "msg_status_count k \<notin>
        set (drop (length (stdout w)) (stdout (get_vlc_status pgrep1 poll pgrep2 w))) \<and>
      msg_status_none \<notin>
        set (drop (length (stdout w)) (stdout (get_vlc_status pgrep1 poll pgrep2 w))) \<and>
      msg_status_unable \<notin>
        set (drop (length (stdout w)) (stdout (get_vlc_status pgrep1 poll pgrep2 w))) \<and>
      check_output_calls (get_vlc_status pgrep1 poll pgrep2 w) =
        check_output_calls w @ [pgrep_count_argv]"
      by blast
  qed
  from a b c show ?thesis by blast
qed

theorem status_reports_count_witness:
  "\<not> DEBUG_MODE (initial_world False) \<and>
   py_int (py_strip (''3'' @ [CHR 0x0A])) = Inr 3 \<and>
   last (stdout (get_vlc_status pgrep_count_three poll_running (Inr (''3'' @ [CHR 0x0A]))
     (initial_world False))) = msg_status_count 3 \<and>
   str_nat 3 = ''3'' \<and>
   last (stdout (get_vlc_status pgrep_count_three poll_running (Inr (''3'' @ [CHR 0x0A]))
     (initial_world False))) = ''VLC status: 3 process(es) running.'' \<and>
   DEBUG_MODE (initial_world True) \<and>
   msg_status_count 3 \<notin>
     set (stdout
       (get_vlc_status pgrep_count_three poll_running pgrep_count_three (initial_world True))) \<and>
   check_output_calls
     (get_vlc_status pgrep_count_three poll_running pgrep_count_three (initial_world True)) =
     [pgrep_count_argv]"
proof -
  have d: "\<not> DEBUG_MODE (initial_world False)" "DEBUG_MODE (initial_world True)"
    "stdout (initial_world True) = []" "check_output_calls (initial_world True) = []"
    by (simp_all add: initial_world_def)
  have n: "str_nat 3 = ''3''"
    by (simp add: str_nat.simps digit_char_def)
  have c: "msg_status_count 3 = ''VLC status: 3 process(es) running.''"
    by (simp add: msg_status_count_def str_int_def str_nat.simps digit_char_def)
  from status_reports_count [of "initial_world False" "''3'' @ [CHR 0x0A]" 3
      pgrep_count_three poll_running 3]
    status_reports_count [of "initial_world True" _ _ pgrep_count_three poll_running _ 3
      pgrep_count_three]
    d n c py_int_count_three
  show ?thesis by simp
qed

text \<open>
  C8 as stated fails: \<open>get_vlc_status\<close> clears the tracked process when \<^verbatim>\<open>poll()\<close> reports
  that it has ended.
\<close>

theorem status_clears_exited_process:
  "vlc_process (tracked_world False) = Some (Popen 4242) \<and>
   vlc_process
     (get_vlc_status pgrep_count_three poll_exited pgrep_count_three (tracked_world False)) = None"
  by (simp add: get_vlc_status_def tracked_world_def initial_world_def poll_exited_def)

text \<open>
  C8 (as amended). \<open>get_vlc_status\<close> sends no signal, spawns no player and leaves
  \<^verbatim>\<open>DEBUG_MODE\<close> alone. The tracked process stays as it was unless \<^verbatim>\<open>poll()\<close> reports that
  it has ended, in which case it is cleared.
\<close>

theorem status_frame:
  "kill_calls (get_vlc_status pgrep1 poll pgrep2 w) = kill_calls w \<and>
   popen_calls (get_vlc_status pgrep1 poll pgrep2 w) = popen_calls w \<and>
   DEBUG_MODE (get_vlc_status pgrep1 poll pgrep2 w) = DEBUG_MODE w \<and>
   vlc_process (get_vlc_status pgrep1 poll pgrep2 w) =
     (case vlc_process w of
        None \<Rightarrow> None
      | Some p \<Rightarrow> if poll p = None then Some p else None)"
  by (simp add: get_vlc_status_def)

theorem status_frame_witness:
  "kill_calls
     (get_vlc_status pgrep_count_three poll_running pgrep_count_three (tracked_world False)) = [] \<and>
   popen_calls
     (get_vlc_status pgrep_count_three poll_running pgrep_count_three (tracked_world False)) = [] \<and>
   vlc_process
     (get_vlc_status pgrep_count_three poll_running pgrep_count_three (tracked_world False)) =
     Some (Popen 4242)"
  using status_frame [of pgrep_count_three poll_running pgrep_count_three "tracked_world False"]
  by (simp add: tracked_world_def initial_world_def poll_running_def)

text \<open>
  C9. A dry run does not look at the tracked process. With a supported format it prints, in
  debug mode, the five command lines and the dry-run line, and nothing otherwise, whatever
  the state; the already-running line is not among them. In particular this holds while a
  process is tracked, and the state keeps that process.
\<close>

theorem dry_run_skips_running_check:
  assumes "vlc_command media_path media_format = Some command"
  shows "stdout (start_vlc subprocess_Popen media_path media_format True w) =
      stdout w @
      (if DEBUG_MODE w
       then command_debug_lines media_path media_format command @ [msg_dry_run]
       else []) \<and>
    msg_already_running \<notin>
      set (command_debug_lines media_path media_format command @ [msg_dry_run]) \<and>
    msg_generated_command command \<in> set (command_debug_lines media_path media_format command) \<and>
    vlc_process (start_vlc subprocess_Popen media_path media_format True w) = vlc_process w"
  using assms already_running_not_debug_line [of media_path media_format command]
  by (simp add: start_vlc_dry_run command_debug_lines_def)

theorem dry_run_skips_running_check_witness:
  "vlc_command ''/tmp/a.gif'' ''gif'' =
     Some [''cvlc'', ''/tmp/a.gif'', ''--demux=avformat'', ''--loop'', ''--no-osd'',
           ''--aspect-ratio=4:3'', ''--crop=16:9''] \<and>
   vlc_process (tracked_world True) = Some (Popen 4242) \<and>
   stdout (start_vlc popen_ok ''/tmp/a.gif'' ''gif'' True (tracked_world True)) =
     command_debug_lines ''/tmp/a.gif'' ''gif''
       [''cvlc'', ''/tmp/a.gif'', ''--demux=avformat'', ''--loop'', ''--no-osd'',
        ''--aspect-ratio=4:3'', ''--crop=16:9''] @ [msg_dry_run] \<and>
   msg_already_running \<notin>
     set (stdout (start_vlc popen_ok ''/tmp/a.gif'' ''gif'' True (tracked_world True))) \<and>
   vlc_process (start_vlc popen_ok ''/tmp/a.gif'' ''gif'' True (tracked_world True)) =
     Some (Popen 4242)"
proof -
  have f: "DEBUG_MODE (tracked_world True)" "stdout (tracked_world True) = []"
    "vlc_process (tracked_world True) = Some (Popen 4242)"
    by (simp_all add: tracked_world_def initial_world_def)
  from dry_run_skips_running_check [where media_path = "''/tmp/a.gif''"
      and media_format = "''gif''" and subprocess_Popen = popen_ok and w = "tracked_world True",
      OF vlc_command_gif] f vlc_command_gif [of "''/tmp/a.gif''"]
  show ?thesis by simp
qed

text \<open>
  C10. When \<^verbatim>\<open>subprocess.Popen\<close> raises, whatever the exception, \<open>start_vlc\<close> prints the
  matching error line and leaves no process tracked. A later \<open>start_vlc\<close> with a supported
  format therefore calls \<^verbatim>\<open>subprocess.Popen\<close> again.
\<close>

theorem failed_spawn_leaves_untracked:
  assumes "vlc_process w = None"
    and "vlc_command media_path media_format = Some command"
    and "subprocess_Popen command = Inl (Exc c e)"
    and "vlc_command later_path later_format = Some later_command"
  shows "vlc_process (start_vlc subprocess_Popen media_path media_format False w) = None \<and>
    popen_calls (start_vlc subprocess_Popen media_path media_format False w) =
      popen_calls w @ [command] \<and>
    last (stdout (start_vlc subprocess_Popen media_path media_format False w)) =
      (if c = FileNotFoundError then msg_cvlc_not_found else msg_start_failed e) \<and>
    popen_calls (start_vlc later_Popen later_path later_format False
        (start_vlc subprocess_Popen media_path media_format False w)) =
      popen_calls w @ [command, later_command]"
proof -
  let ?w' = "start_vlc subprocess_Popen media_path media_format False w"
  have first: "vlc_process ?w' = None" "popen_calls ?w' = popen_calls w @ [command]"
    "last (stdout ?w') = (if c = FileNotFoundError then msg_cvlc_not_found else msg_start_failed e)"
    using assms(1,2,3) by (simp_all add: start_vlc_raised)
  from start_vlc_untracked_calls [OF first(1) assms(4), of later_Popen] first
  show ?thesis by simp
qed

theorem failed_spawn_leaves_untracked_witness:
  "vlc_process (initial_world False) = None \<and>
   vlc_command ''/tmp/clip.mp4'' ''video'' =
     Some [''cvlc'', ''/tmp/clip.mp4'', ''--loop'', ''--no-osd''] \<and>
   vlc_process (start_vlc popen_missing ''/tmp/clip.mp4'' ''video'' False (initial_world False)) =
     None \<and>
   last (stdout (start_vlc popen_missing ''/tmp/clip.mp4'' ''video'' False (initial_world False))) =
     msg_cvlc_not_found \<and>
   popen_calls (start_vlc popen_ok ''/tmp/clip.mp4'' ''video'' False
       (start_vlc popen_missing ''/tmp/clip.mp4'' ''video'' False (initial_world False))) =
     [''cvlc'', ''/tmp/clip.mp4'', ''--loop'', ''--no-osd''] #
     [''cvlc'', ''/tmp/clip.mp4'', ''--loop'', ''--no-osd''] # []"
proof -
  have h: "vlc_process (initial_world False) = None" "popen_calls (initial_world False) = []"
    by (simp_all add: initial_world_def)
  have m: "popen_missing [''cvlc'', ''/tmp/clip.mp4'', ''--loop'', ''--no-osd''] =
      Inl (Exc FileNotFoundError (''[Errno 2] No such file or directory: 'cvlc'' @ [CHR 0x27]))"
    by (simp add: popen_missing_def)
  from failed_spawn_leaves_untracked [where w = "initial_world False"
      and media_path = "''/tmp/clip.mp4''" and media_format = "''video''"
      and subprocess_Popen = popen_missing and later_path = "''/tmp/clip.mp4''"
      and later_format = "''video''" and later_Popen = popen_ok,
      OF h(1) vlc_command_video m vlc_command_video]
    h vlc_command_video [of "''/tmp/clip.mp4''"]
  show ?thesis by simp
qed

end
